theory Spec2Isabelle
  imports Complex_Main "HOL-Library.Sublist" "HOL-Library.List_Lexorder" "HOL-Library.Multiset"
    "HOL-Library.AList"
begin

section \<open>Strings, values and the JavaScript runtime\<close>

text \<open>
  A JavaScript string is a sequence of UTF-16 code units; it is modelled as the list of
  their numeric values, so that \<open>length\<close>, \<open>slice\<close> and \<open>includes\<close> count what the
  program counts. \<open>str\<close> embeds an ASCII literal; any other character of a source literal
  is written as its code unit. The string literals of \<open>notificationService.ts\<close> are
  transcribed code unit by code unit from the file as it is stored (its accented letters are
  stored as two characters each, e.g. U+221A U+00DF where French spells c-cedilla).
\<close>

type_synonym jsstring = "nat list"

definition str :: "string \<Rightarrow> jsstring" where
  "str s = map of_char s"

definition js_includes :: "jsstring \<Rightarrow> jsstring \<Rightarrow> bool" where
  \<comment> \<open>\<open>s.includes(t)\<close>\<close>
  "js_includes s t = sublist t s"

definition slice_last :: "nat \<Rightarrow> jsstring \<Rightarrow> jsstring" where
  \<comment> \<open>\<open>s.slice(-k)\<close>: the last \<open>k\<close> code units, the whole string when it is shorter\<close>
  "slice_last k s = drop (length s - k) s"

function decimal :: "nat \<Rightarrow> jsstring" where
  \<comment> \<open>the rendering of a non-negative integer in a template literal or by \<open>toString()\<close>\<close>
  "decimal n = (if n < 10 then [48 + n] else decimal (n div 10) @ [48 + n mod 10])"
  by pat_completeness auto
termination
  by (relation "measure (\<lambda>n. n)") auto

text \<open>
  What the program takes from the runtime library and the claims do not depend on:
  number formatting (\<open>toFixed(2)\<close> and the default rendering), Unicode case mapping, date
  parsing (\<open>new Date(s).getTime()\<close>, \<open>None\<close> for \<open>NaN\<close>) and collation. They are a
  parameter of every function that calls them.
\<close>

record runtime =
  toFixed2 :: "real \<Rightarrow> jsstring"
  toLowerCase :: "jsstring \<Rightarrow> jsstring"
  toUpperCase :: "jsstring \<Rightarrow> jsstring"
  numberToString :: "real \<Rightarrow> jsstring"
  getTime :: "jsstring \<Rightarrow> int option"
  localeCompare :: "jsstring \<Rightarrow> jsstring \<Rightarrow> int"

datatype jsval =
    VUndefined
  | VStr jsstring
  | VNum real
  | VArr "jsval list"
  | VObj "(jsstring \<times> jsval) list"



fun has_undefined :: "jsval \<Rightarrow> bool" where
  \<comment> \<open>the value is \<open>undefined\<close> or holds \<open>undefined\<close> in an element or a property\<close>
  "has_undefined VUndefined = True"
| "has_undefined (VStr s) = False"
| "has_undefined (VNum x) = False"
| "has_undefined (VArr xs) = list_ex has_undefined xs"
| "has_undefined (VObj props) = list_ex (\<lambda>p. has_undefined (snd p)) props"

text \<open>
  Members that a plain object inherits from \<open>Object.prototype\<close>, each with the string a
  template literal renders it as. A lookup \<open>table[key]\<close> on an object literal finds them
  when \<open>key\<close> is not an own property; every one of them is truthy.
\<close>

definition native_function :: "string \<Rightarrow> jsstring" where
  "native_function name = str ''function '' @ str name @ str ''() { [native code] }''"

definition object_prototype_members :: "(jsstring \<times> jsstring) list" where
  "object_prototype_members =
    [(str ''constructor'', native_function ''Object''),
     (str ''__proto__'', str ''[object Object]''),
     (str ''hasOwnProperty'', native_function ''hasOwnProperty''),
     (str ''isPrototypeOf'', native_function ''isPrototypeOf''),
     (str ''propertyIsEnumerable'', native_function ''propertyIsEnumerable''),
     (str ''toLocaleString'', native_function ''toLocaleString''),
     (str ''toString'', native_function ''toString''),
     (str ''valueOf'', native_function ''valueOf''),
     (str ''__defineGetter__'', native_function ''__defineGetter__''),
     (str ''__defineSetter__'', native_function ''__defineSetter__''),
     (str ''__lookupGetter__'', native_function ''__lookupGetter__''),
     (str ''__lookupSetter__'', native_function ''__lookupSetter__'')]"

datatype 'a member = Own 'a | Inherited jsstring | Missing

definition get_member :: "(jsstring \<times> 'a) list \<Rightarrow> jsstring \<Rightarrow> 'a member" where
  \<comment> \<open>\<open>table[key]\<close> on an object literal with the own properties \<open>table\<close>\<close>
  "get_member table key = (case map_of table key of
      Some v \<Rightarrow> Own v
    | None \<Rightarrow> (case map_of object_prototype_members key of
        Some rendering \<Rightarrow> Inherited rendering
      | None \<Rightarrow> Missing))"

text \<open>
  A runtime to evaluate examples with: amounts rendered with two decimals, rounded half up,
  and other numbers by their integer part (both for numbers that are not negative), case
  mapping of the ASCII letters, dates written as decimal epoch milliseconds, collation by
  code units.
\<close>

definition example_runtime :: runtime where
  "example_runtime = \<lparr>
     toFixed2 = (\<lambda>x. let cents = nat \<lfloor>x * 100 + 1 / 2\<rfloor>
                    in decimal (cents div 100) @ str ''.''
                       @ [48 + cents mod 100 div 10, 48 + cents mod 10]),
     toLowerCase = map (\<lambda>c. if 65 \<le> c \<and> c \<le> 90 then c + 32 else c),
     toUpperCase = map (\<lambda>c. if 97 \<le> c \<and> c \<le> 122 then c - 32 else c),
     numberToString = (\<lambda>x. decimal (nat \<lfloor>x\<rfloor>)),
     getTime = (\<lambda>s. if s \<noteq> [] \<and> list_all (\<lambda>c. 48 \<le> c \<and> c \<le> 57) s
                     then Some (int (fold (\<lambda>c n. 10 * n + (c - 48)) s 0)) else None),
     localeCompare = (\<lambda>a b. if a < b then - 1 else if b < a then 1 else 0) \<rparr>"

section \<open>Orders (models/index.ts)\<close>

text \<open>
  The fields of \<open>Order\<close> that the notification and email services read; \<open>order_id\<close> is
  its \<open>id\<close>. \<open>status\<close> and \<open>paymentStatus\<close> are strings: the services receive them
  as such and handle values outside the declared ones. An order is a value of the declared
  type: each of its fields is present and holds a value, but for \<open>instructions\<close> of the
  delivery address, which the type declares optional and an address may lack.
\<close>

record order_item =
  productName :: jsstring
  quantity :: real
  unitPrice :: real
  totalPrice :: real
  unit :: jsstring

record delivery_address =
  street :: jsstring
  city :: jsstring
  postalCode :: jsstring
  country :: jsstring
  instructions :: "jsstring option"

record order =
  order_id :: jsstring
  fournisseurId :: jsstring
  fournisseurName :: jsstring
  userEmail :: jsstring
  userName :: jsstring
  userPhone :: jsstring
  total :: real
  status :: jsstring
  paymentStatus :: jsstring
  paymentMethod :: jsstring
  deliveryAddress :: delivery_address
  orderNotes :: jsstring
  items :: "order_item list"

section \<open>The supplier email service (supplierEmailService.ts)\<close>

record order_email_template =
  subject :: jsstring
  message :: jsstring
  type :: jsstring

definition template_pending :: order_email_template where
  "template_pending = \<lparr>
     subject = [0xD83C, 0xDD95] @ str '' Nouvelle Commande Re'' @ [0xE7] @ str ''ue - #{orderNumber}'',
     message =
       [0xA]
       @ str ''      Bonjour {supplierName},'' @ [0xA]
       @ str ''      '' @ [0xA]
       @ str ''      Vous avez re'' @ [0xE7] @ str ''u une nouvelle commande !'' @ [0xA]
       @ str ''      '' @ [0xA]
       @ str ''      D'' @ [0xE9] @ str ''tails de la commande:'' @ [0xA]
       @ str ''      - Num'' @ [0xE9] @ str ''ro de commande: #{orderNumber}'' @ [0xA]
       @ str ''      - Client: {customerName}'' @ [0xA]
       @ str ''      - Email: {customerEmail}'' @ [0xA]
       @ str ''      - T'' @ [0xE9] @ str ''l'' @ [0xE9] @ str ''phone: {customerPhone}'' @ [0xA]
       @ str ''      - Montant total: '' @ [0x20AC] @ str ''{total}'' @ [0xA]
       @ str ''      - Articles: {itemCount} article(s)'' @ [0xA]
       @ str ''      - Adresse de livraison: {deliveryAddress}'' @ [0xA]
       @ str ''      '' @ [0xA]
       @ str ''      Articles command'' @ [0xE9] @ str ''s:'' @ [0xA]
       @ str ''      {orderItems}'' @ [0xA]
       @ str ''      '' @ [0xA]
       @ str ''      Notes de commande: {orderNotes}'' @ [0xA]
       @ str ''      '' @ [0xA]
       @ str ''      Veuillez confirmer cette commande d'' @ [0xE8] @ str ''s que possible.'' @ [0xA]
       @ str ''      '' @ [0xA]
       @ str ''      Cordialement,'' @ [0xA]
       @ str ''      L'' @ [0x27, 0xE9] @ str ''quipe Optimizi'' @ [0xA]
       @ str ''    '',
     type = str ''new_order'' \<rparr>"

definition template_confirmed :: order_email_template where
  "template_confirmed = \<lparr>
     subject = [0x2705] @ str '' Commande Confirm'' @ [0xE9] @ str ''e - #{orderNumber}'',
     message =
       [0xA]
       @ str ''      Bonjour {supplierName},'' @ [0xA]
       @ str ''      '' @ [0xA]
       @ str ''      La commande #{orderNumber} a '' @ [0xE9] @ str ''t'' @ [0xE9] @ str '' confirm'' @ [0xE9] @ str ''e et est maintenant en cours de pr'' @ [0xE9] @ str ''paration.'' @ [0xA]
       @ str ''      '' @ [0xA]
       @ str ''      D'' @ [0xE9] @ str ''tails de la commande:'' @ [0xA]
       @ str ''      - Client: {customerName}'' @ [0xA]
       @ str ''      - Email: {customerEmail}'' @ [0xA]
       @ str ''      - T'' @ [0xE9] @ str ''l'' @ [0xE9] @ str ''phone: {customerPhone}'' @ [0xA]
       @ str ''      - Montant total: '' @ [0x20AC] @ str ''{total}'' @ [0xA]
       @ str ''      - Articles: {itemCount} article(s)'' @ [0xA]
       @ str ''      - Adresse de livraison: {deliveryAddress}'' @ [0xA]
       @ str ''      '' @ [0xA]
       @ str ''      Articles '' @ [0xE0] @ str '' pr'' @ [0xE9] @ str ''parer:'' @ [0xA]
       @ str ''      {orderItems}'' @ [0xA]
       @ str ''      '' @ [0xA]
       @ str ''      Notes de commande: {orderNotes}'' @ [0xA]
       @ str ''      '' @ [0xA]
       @ str ''      Temps de pr'' @ [0xE9] @ str ''paration estim'' @ [0xE9] @ str '': 15-30 minutes'' @ [0xA]
       @ str ''      '' @ [0xA]
       @ str ''      Cordialement,'' @ [0xA]
       @ str ''      L'' @ [0x27, 0xE9] @ str ''quipe Optimizi'' @ [0xA]
       @ str ''    '',
     type = str ''order_confirmed'' \<rparr>"

definition template_preparing :: order_email_template where
  "template_preparing = \<lparr>
     subject = [0xD83D, 0xDC68, 0x200D, 0xD83C, 0xDF73] @ str '' Pr'' @ [0xE9] @ str ''paration en Cours - #{orderNumber}'',
     message =
       [0xA]
       @ str ''      Bonjour {supplierName},'' @ [0xA]
       @ str ''      '' @ [0xA]
       @ str ''      La commande #{orderNumber} est actuellement en cours de pr'' @ [0xE9] @ str ''paration.'' @ [0xA]
       @ str ''      '' @ [0xA]
       @ str ''      D'' @ [0xE9] @ str ''tails de la commande:'' @ [0xA]
       @ str ''      - Client: {customerName}'' @ [0xA]
       @ str ''      - Email: {customerEmail}'' @ [0xA]
       @ str ''      - T'' @ [0xE9] @ str ''l'' @ [0xE9] @ str ''phone: {customerPhone}'' @ [0xA]
       @ str ''      - Montant total: '' @ [0x20AC] @ str ''{total}'' @ [0xA]
       @ str ''      - Articles: {itemCount} article(s)'' @ [0xA]
       @ str ''      - Adresse de livraison: {deliveryAddress}'' @ [0xA]
       @ str ''      '' @ [0xA]
       @ str ''      Articles en pr'' @ [0xE9] @ str ''paration:'' @ [0xA]
       @ str ''      {orderItems}'' @ [0xA]
       @ str ''      '' @ [0xA]
       @ str ''      Notes de commande: {orderNotes}'' @ [0xA]
       @ str ''      '' @ [0xA]
       @ str ''      Temps de livraison estim'' @ [0xE9] @ str '': 20-40 minutes'' @ [0xA]
       @ str ''      '' @ [0xA]
       @ str ''      Cordialement,'' @ [0xA]
       @ str ''      L'' @ [0x27, 0xE9] @ str ''quipe Optimizi'' @ [0xA]
       @ str ''    '',
     type = str ''order_preparing'' \<rparr>"

definition template_out_for_delivery :: order_email_template where
  "template_out_for_delivery = \<lparr>
     subject = [0xD83D, 0xDE9A] @ str '' En Cours de Livraison - #{orderNumber}'',
     message =
       [0xA]
       @ str ''      Bonjour {supplierName},'' @ [0xA]
       @ str ''      '' @ [0xA]
       @ str ''      La commande #{orderNumber} est maintenant en route !'' @ [0xA]
       @ str ''      '' @ [0xA]
       @ str ''      D'' @ [0xE9] @ str ''tails de la commande:'' @ [0xA]
       @ str ''      - Client: {customerName}'' @ [0xA]
       @ str ''      - Email: {customerEmail}'' @ [0xA]
       @ str ''      - T'' @ [0xE9] @ str ''l'' @ [0xE9] @ str ''phone: {customerPhone}'' @ [0xA]
       @ str ''      - Montant total: '' @ [0x20AC] @ str ''{total}'' @ [0xA]
       @ str ''      - Articles: {itemCount} article(s)'' @ [0xA]
       @ str ''      - Adresse de livraison: {deliveryAddress}'' @ [0xA]
       @ str ''      '' @ [0xA]
       @ str ''      Articles livr'' @ [0xE9] @ str ''s:'' @ [0xA]
       @ str ''      {orderItems}'' @ [0xA]
       @ str ''      '' @ [0xA]
       @ str ''      Notes de commande: {orderNotes}'' @ [0xA]
       @ str ''      '' @ [0xA]
       @ str ''      Temps de livraison estim'' @ [0xE9] @ str '': 10-20 minutes'' @ [0xA]
       @ str ''      '' @ [0xA]
       @ str ''      Cordialement,'' @ [0xA]
       @ str ''      L'' @ [0x27, 0xE9] @ str ''quipe Optimizi'' @ [0xA]
       @ str ''    '',
     type = str ''order_shipped'' \<rparr>"

definition template_delivered :: order_email_template where
  "template_delivered = \<lparr>
     subject = [0xD83C, 0xDF89] @ str '' Commande Livr'' @ [0xE9] @ str ''e - #{orderNumber}'',
     message =
       [0xA]
       @ str ''      Bonjour {supplierName},'' @ [0xA]
       @ str ''      '' @ [0xA]
       @ str ''      La commande #{orderNumber} a '' @ [0xE9] @ str ''t'' @ [0xE9] @ str '' livr'' @ [0xE9] @ str ''e avec succ'' @ [0xE8] @ str ''s !'' @ [0xA]
       @ str ''      '' @ [0xA]
       @ str ''      D'' @ [0xE9] @ str ''tails de la commande:'' @ [0xA]
       @ str ''      - Client: {customerName}'' @ [0xA]
       @ str ''      - Email: {customerEmail}'' @ [0xA]
       @ str ''      - T'' @ [0xE9] @ str ''l'' @ [0xE9] @ str ''phone: {customerPhone}'' @ [0xA]
       @ str ''      - Montant total: '' @ [0x20AC] @ str ''{total}'' @ [0xA]
       @ str ''      - Articles: {itemCount} article(s)'' @ [0xA]
       @ str ''      - Adresse de livraison: {deliveryAddress}'' @ [0xA]
       @ str ''      '' @ [0xA]
       @ str ''      Articles livr'' @ [0xE9] @ str ''s:'' @ [0xA]
       @ str ''      {orderItems}'' @ [0xA]
       @ str ''      '' @ [0xA]
       @ str ''      Notes de commande: {orderNotes}'' @ [0xA]
       @ str ''      '' @ [0xA]
       @ str ''      Merci pour votre excellent service !'' @ [0xA]
       @ str ''      '' @ [0xA]
       @ str ''      Cordialement,'' @ [0xA]
       @ str ''      L'' @ [0x27, 0xE9] @ str ''quipe Optimizi'' @ [0xA]
       @ str ''    '',
     type = str ''order_delivered'' \<rparr>"

definition template_cancelled :: order_email_template where
  "template_cancelled = \<lparr>
     subject = [0x274C] @ str '' Commande Annul'' @ [0xE9] @ str ''e - #{orderNumber}'',
     message =
       [0xA]
       @ str ''      Bonjour {supplierName},'' @ [0xA]
       @ str ''      '' @ [0xA]
       @ str ''      La commande #{orderNumber} a '' @ [0xE9] @ str ''t'' @ [0xE9] @ str '' annul'' @ [0xE9] @ str ''e.'' @ [0xA]
       @ str ''      '' @ [0xA]
       @ str ''      D'' @ [0xE9] @ str ''tails de la commande:'' @ [0xA]
       @ str ''      - Client: {customerName}'' @ [0xA]
       @ str ''      - Email: {customerEmail}'' @ [0xA]
       @ str ''      - T'' @ [0xE9] @ str ''l'' @ [0xE9] @ str ''phone: {customerPhone}'' @ [0xA]
       @ str ''      - Montant total: '' @ [0x20AC] @ str ''{total}'' @ [0xA]
       @ str ''      - Articles: {itemCount} article(s)'' @ [0xA]
       @ str ''      - Adresse de livraison: {deliveryAddress}'' @ [0xA]
       @ str ''      '' @ [0xA]
       @ str ''      Articles concern'' @ [0xE9] @ str ''s:'' @ [0xA]
       @ str ''      {orderItems}'' @ [0xA]
       @ str ''      '' @ [0xA]
       @ str ''      Notes de commande: {orderNotes}'' @ [0xA]
       @ str ''      '' @ [0xA]
       @ str ''      Si vous avez des questions concernant cette annulation, n'' @ [0x27] @ str ''h'' @ [0xE9] @ str ''sitez pas '' @ [0xE0] @ str '' nous contacter.'' @ [0xA]
       @ str ''      '' @ [0xA]
       @ str ''      Cordialement,'' @ [0xA]
       @ str ''      L'' @ [0x27, 0xE9] @ str ''quipe Optimizi'' @ [0xA]
       @ str ''    '',
     type = str ''order_cancelled'' \<rparr>"

definition ORDER_STATUS_TEMPLATES :: "(jsstring \<times> order_email_template) list" where
  "ORDER_STATUS_TEMPLATES =
    [(str ''pending'', template_pending),
     (str ''confirmed'', template_confirmed),
     (str ''preparing'', template_preparing),
     (str ''out_for_delivery'', template_out_for_delivery),
     (str ''delivered'', template_delivered),
     (str ''cancelled'', template_cancelled)]"

text \<open>
  \<open>s.replace(/{name}/g, value)\<close>: every occurrence of the literal text is replaced, left to
  right. In the replacement string \<open>$$\<close> stands for \<open>$\<close>, \<open>$&\<close> for the matched text, and
  \<open>$`\<close> and \<open>$'\<close> for the text before and after the match; the patterns have no groups, so
  any other \<open>$\<close> is kept.
\<close>

fun substitution :: "jsstring \<Rightarrow> jsstring \<Rightarrow> jsstring \<Rightarrow> jsstring \<Rightarrow> jsstring" where
  "substitution matched preceding following [] = []"
| "substitution matched preceding following [c] = [c]"
| "substitution matched preceding following (c # c' # r) =
     (if c = 0x24 \<and> c' = 0x24 then 0x24 # substitution matched preceding following r
      else if c = 0x24 \<and> c' = 0x26 then matched @ substitution matched preceding following r
      else if c = 0x24 \<and> c' = 0x60 then preceding @ substitution matched preceding following r
      else if c = 0x24 \<and> c' = 0x27 then following @ substitution matched preceding following r
      else c # substitution matched preceding following (c' # r))"

fun replace_from :: "jsstring \<Rightarrow> jsstring \<Rightarrow> jsstring \<Rightarrow> nat \<Rightarrow> jsstring \<Rightarrow> jsstring" where
  \<comment> \<open>\<open>preceding\<close> is the text already passed, \<open>skip\<close> what is left of the current match\<close>
  "replace_from pat replacement preceding skip [] = []"
| "replace_from pat replacement preceding skip (c # cs) =
     (if skip > 0 then replace_from pat replacement (preceding @ [c]) (skip - 1) cs
      else if prefix pat (c # cs) then
        substitution pat preceding (drop (length pat) (c # cs)) replacement
        @ replace_from pat replacement (preceding @ [c]) (length pat - 1) cs
      else c # replace_from pat replacement (preceding @ [c]) 0 cs)"

definition replace_all :: "string \<Rightarrow> jsstring \<Rightarrow> jsstring \<Rightarrow> jsstring" where
  "replace_all pat replacement s = replace_from (str pat) replacement [] 0 s"

definition join :: "jsstring \<Rightarrow> jsstring list \<Rightarrow> jsstring" where
  "join sep xs = (case xs of [] \<Rightarrow> [] | x # rest \<Rightarrow> x @ concat (map (\<lambda>y. sep @ y) rest))"

definition formatOrderItems :: "runtime \<Rightarrow> order_item list \<Rightarrow> jsstring" where
  "formatOrderItems rt items' =
     join [0xA] (map (\<lambda>item.
       [0x2022] @ str '' '' @ productName item @ str '' - Quantit'' @ [0xE9] @ str '': ''
       @ numberToString rt (quantity item) @ str '' '' @ unit item
       @ str '' - Prix: '' @ [0x20AC] @ toFixed2 rt (totalPrice item)) items')"

definition formatDeliveryAddress :: "delivery_address \<Rightarrow> jsstring" where
  "formatDeliveryAddress address =
     street address @ str '', '' @ city address @ str '' '' @ postalCode address
     @ str '', '' @ country address"

definition getSupplierEmail :: "jsstring \<Rightarrow> jsstring" where
  "getSupplierEmail supplierId = str ''supplier@example.com''"

text \<open>
  The service holds its configuration and whether it is initialized. The email provider is
  external: \<open>emailjs.init\<close> and \<open>emailjs.send\<close> are parameters that answer or throw, and
  the calls made to \<open>send\<close> are returned with the result, in order. A thrown value is
  \<open>Inl\<close>; the result type of \<open>sendOrderNotification\<close> leaves room for it, so that not
  throwing is a property to prove.
\<close>

datatype exception = TypeError | ProviderError jsstring

record email_config =
  serviceId :: jsstring
  orderNotificationTemplateId :: jsstring
  publicKey :: jsstring

record email_service =
  isInitialized :: bool
  config :: email_config

type_synonym email_call = "jsstring \<times> jsstring \<times> (jsstring \<times> jsval) list"
type_synonym email_provider = "email_call \<Rightarrow> exception + jsstring"

definition initialize :: "(jsstring \<Rightarrow> exception + unit) \<Rightarrow> email_service \<Rightarrow> email_service" where
  "initialize init service =
    (if isInitialized service then service
     else case init (publicKey (config service)) of
            Inr u \<Rightarrow> service\<lparr>isInitialized := True\<rparr>
          | Inl error \<Rightarrow> service)"

definition orderTemplateParams ::
  "runtime \<Rightarrow> order \<Rightarrow> order_email_template \<Rightarrow> (jsstring \<times> jsval) list" where
  \<comment> \<open>\<open>templateParams\<close>, with the values computed before it in the \<open>try\<close> block\<close>
  "orderTemplateParams rt order' template =
    (let orderNumber = toUpperCase rt (slice_last 8 (order_id order'));
         orderItemsHtml = formatOrderItems rt (items order');
         deliveryAddressFormatted = formatDeliveryAddress (deliveryAddress order');
         notes = (if orderNotes order' = [] then str ''Aucune note'' else orderNotes order');
         personalizedMessage =
           replace_all ''{orderNotes}'' notes
           (replace_all ''{orderItems}'' orderItemsHtml
           (replace_all ''{deliveryAddress}'' deliveryAddressFormatted
           (replace_all ''{itemCount}'' (decimal (length (items order')))
           (replace_all ''{total}'' (toFixed2 rt (total order'))
           (replace_all ''{customerPhone}'' (userPhone order')
           (replace_all ''{customerEmail}'' (userEmail order')
           (replace_all ''{customerName}'' (userName order')
           (replace_all ''{orderNumber}'' orderNumber
           (replace_all ''{supplierName}'' (fournisseurName order')
              (message template))))))))));
         personalizedSubject = replace_all ''{orderNumber}'' orderNumber (subject template)
     in [(str ''to_email'', VStr (getSupplierEmail (order.fournisseurId order'))),
         (str ''to_name'', VStr (fournisseurName order')),
         (str ''subject'', VStr personalizedSubject),
         (str ''message'', VStr personalizedMessage),
         (str ''order_id'', VStr orderNumber),
         (str ''status'', VStr (status order')),
         (str ''status_type'', VStr (type template)),
         (str ''company_name'', VStr (str ''Optimizi'')),
         (str ''supplier_name'', VStr (fournisseurName order')),
         (str ''customer_name'', VStr (userName order')),
         (str ''customer_email'', VStr (userEmail order')),
         (str ''customer_phone'', VStr (userPhone order')),
         (str ''order_total'', VStr (toFixed2 rt (total order'))),
         (str ''item_count'', VNum (real (length (items order')))),
         (str ''delivery_address'', VStr deliveryAddressFormatted),
         (str ''order_items'', VStr orderItemsHtml),
         (str ''order_notes'', VStr notes)])"

definition sendOrderNotification_try ::
  "runtime \<Rightarrow> email_provider \<Rightarrow> email_service \<Rightarrow> order \<Rightarrow> (exception + bool) \<times> email_call list"
  where
  \<comment> \<open>the \<open>try\<close> block; reading \<open>message\<close> of an inherited member gives \<open>undefined\<close>, and
      calling \<open>replace\<close> on it throws\<close>
  "sendOrderNotification_try rt send service order' =
    (case get_member ORDER_STATUS_TEMPLATES (status order') of
       Missing \<Rightarrow> (Inr False, [])
     | Inherited rendering \<Rightarrow> (Inl TypeError, [])
     | Own template \<Rightarrow>
        (let call = (serviceId (config service), orderNotificationTemplateId (config service),
                     orderTemplateParams rt order' template)
         in case send call of
              Inl error \<Rightarrow> (Inl error, [call])
            | Inr response \<Rightarrow> (Inr True, [call])))"

definition sendOrderNotification ::
  "runtime \<Rightarrow> email_provider \<Rightarrow> email_service \<Rightarrow> order \<Rightarrow> (exception + bool) \<times> email_call list"
  where
  \<comment> \<open>the guard, then \<open>try { ... } catch (error) { return false }\<close>\<close>
  "sendOrderNotification rt send service order' =
    (if \<not> isInitialized service then (Inr False, [])
     else case sendOrderNotification_try rt send service order' of
            (Inl error, calls) \<Rightarrow> (Inr False, calls)
          | (Inr sent, calls) \<Rightarrow> (Inr sent, calls))"

definition sendBulkOrderNotifications ::
  "runtime \<Rightarrow> email_provider \<Rightarrow> email_service \<Rightarrow> order list \<Rightarrow> bool list \<times> email_call list"
  where
  \<comment> \<open>\<open>Promise.allSettled\<close>: a rejected send counts as \<open>false\<close>\<close>
  "sendBulkOrderNotifications rt send service orders =
    (let results = map (sendOrderNotification rt send service) orders
     in (map (\<lambda>(result, calls). case result of Inr sent \<Rightarrow> sent | Inl error \<Rightarrow> False) results,
         concat (map snd results)))"

definition example_service :: email_service where
  "example_service = \<lparr>
     isInitialized = True,
     config = \<lparr> serviceId = str ''YOUR_EMAILJS_SERVICE_ID'',
                orderNotificationTemplateId = str ''YOUR_SUPPLIER_ORDER_TEMPLATE_ID'',
                publicKey = str ''YOUR_EMAILJS_PUBLIC_KEY'' \<rparr> \<rparr>"

section \<open>The enhanced notifications page (EnhancedNotifications.tsx)\<close>

text \<open>
  The fields of \<open>EnhancedNotification\<close> that the page reads when it filters and sorts.
  \<open>priority\<close> has the three values of its declared type.
\<close>

datatype priority_level = High | Medium | Low

record enhanced_notification =
  enhanced_id :: jsstring
  type :: jsstring
  title :: jsstring
  message :: jsstring
  priority :: priority_level
  isRead :: bool
  clicked :: bool
  createdAt :: jsstring

definition priorityOrder :: "priority_level \<Rightarrow> int" where
  \<comment> \<open>\<open>{ high: 3, medium: 2, low: 1 }\<close>; no value is falsy, so \<open>|| 0\<close> changes none\<close>
  "priorityOrder p = (case p of High \<Rightarrow> 3 | Medium \<Rightarrow> 2 | Low \<Rightarrow> 1)"

definition time_diff :: "runtime \<Rightarrow> jsstring \<Rightarrow> jsstring \<Rightarrow> int option" where
  \<comment> \<open>\<open>new Date(x).getTime() - new Date(y).getTime()\<close>; \<open>None\<close> is \<open>NaN\<close>\<close>
  "time_diff rt x y = (case (getTime rt x, getTime rt y) of
      (Some tx, Some ty) \<Rightarrow> Some (tx - ty)
    | _ \<Rightarrow> None)"

definition compareNotifications ::
  "runtime \<Rightarrow> jsstring \<Rightarrow> enhanced_notification \<Rightarrow> enhanced_notification \<Rightarrow> int option" where
  \<comment> \<open>the comparator passed to \<open>filtered.sort\<close>, the \<open>switch\<close> on \<open>sortBy\<close>\<close>
  "compareNotifications rt sortBy a b =
    (if sortBy = str ''oldest'' then time_diff rt (createdAt a) (createdAt b)
     else if sortBy = str ''priority'' then
       (let aPriority = priorityOrder (priority a);
            bPriority = priorityOrder (priority b)
        in if aPriority = bPriority then time_diff rt (createdAt b) (createdAt a)
           else Some (bPriority - aPriority))
     else if sortBy = str ''unread'' then
       (if isRead a = isRead b then time_diff rt (createdAt b) (createdAt a)
        else Some (if isRead a then 1 else - 1))
     else if sortBy = str ''type'' then
       (if type a = type b then time_diff rt (createdAt b) (createdAt a)
        else Some (localeCompare rt (type a) (type b)))
     else time_diff rt (createdAt b) (createdAt a))"

text \<open>
  \<open>Array.prototype.sort\<close> is stable and reads a comparator result \<open>NaN\<close> as 0. For a
  consistent comparator its result is the stable sort of the array, which an insertion sort
  computes: an element goes before the first later element it does not compare greater than.
\<close>

fun sort_insert :: "('a \<Rightarrow> 'a \<Rightarrow> int option) \<Rightarrow> 'a \<Rightarrow> 'a list \<Rightarrow> 'a list" where
  "sort_insert cmp x [] = [x]"
| "sort_insert cmp x (y # ys) =
     (if (case cmp x y of None \<Rightarrow> 0 | Some v \<Rightarrow> v) \<le> 0 then x # y # ys
      else y # sort_insert cmp x ys)"

definition array_sort :: "('a \<Rightarrow> 'a \<Rightarrow> int option) \<Rightarrow> 'a list \<Rightarrow> 'a list" where
  "array_sort cmp xs = foldr (sort_insert cmp) xs []"

definition dated :: "runtime \<Rightarrow> enhanced_notification \<Rightarrow> bool" where
  \<comment> \<open>\<open>createdAt\<close> is a date the runtime can read\<close>
  "dated rt n = (getTime rt (createdAt n) \<noteq> None)"

definition matchesSearch :: "runtime \<Rightarrow> jsstring \<Rightarrow> enhanced_notification \<Rightarrow> bool" where
  "matchesSearch rt searchTerm notification =
     (searchTerm = [] \<or>
      js_includes (toLowerCase rt (title notification)) (toLowerCase rt searchTerm) \<or>
      js_includes (toLowerCase rt (message notification)) (toLowerCase rt searchTerm))"

definition filteredAndSortedNotifications ::
  "runtime \<Rightarrow> enhanced_notification list \<Rightarrow> jsstring \<Rightarrow> jsstring \<Rightarrow> enhanced_notification list"
  where
  "filteredAndSortedNotifications rt notifications searchTerm sortBy =
    (let filtered = filter (matchesSearch rt searchTerm) notifications
     in array_sort (compareNotifications rt sortBy) filtered)"

definition priority_then_newest ::
  "runtime \<Rightarrow> enhanced_notification \<Rightarrow> enhanced_notification \<Rightarrow> bool" where
  \<comment> \<open>\<open>a\<close> may stand before \<open>b\<close>: a higher priority, or the same priority and not older\<close>
  "priority_then_newest rt a b =
     (priorityOrder (priority a) > priorityOrder (priority b) \<or>
      (priority a = priority b \<and>
       (case (getTime rt (createdAt a), getTime rt (createdAt b)) of
          (Some ta, Some tb) \<Rightarrow> tb \<le> ta
        | _ \<Rightarrow> False)))"

text \<open>
  Modelled from the spec: \<open>EnhancedNotificationService.getNotificationStats\<close>, which computes
  \<open>clickThroughRate\<close>, is not among the source files (only the field's declaration in
  \<open>NotificationStats\<close> and its display are). The spec: \<open>clickThroughRate = clicked_count /
  total * 100\<close> (0 when total is 0, never divide-by-zero). A division by zero, which yields
  no finite number, is \<open>None\<close>; numbers are reals.
\<close>

definition divide_number :: "real \<Rightarrow> real \<Rightarrow> real option" where
  "divide_number x y = (if y = 0 then None else Some (x / y))"

definition clickThroughRate :: "enhanced_notification list \<Rightarrow> real option" where
  \<comment> \<open>Modelled from the spec: the function that computes the rate is not in the sources\<close>
  "clickThroughRate notifications =
    (let total = length notifications;
         clicked_count = length (filter clicked notifications)
     in if total = 0 then Some 0
        else map_option (\<lambda>q. q * 100) (divide_number (real clicked_count) (real total)))"

section \<open>Notifications and the notification store (notificationService.ts)\<close>

datatype notification_type = NOrder | NPayment | NSystem | NProduct

text \<open>
  \<open>new_notification\<close> is \<open>Omit<AppNotification, 'id' | 'createdAt'>\<close>, the object a
  creation helper builds; a stored document adds \<open>createdAt\<close> and, once read, \<open>readAt\<close>.
  An absent optional field is \<open>None\<close>.
\<close>

record new_notification =
  type :: notification_type
  title :: jsstring
  message :: jsstring
  orderId :: "jsstring option"
  fournisseurId :: jsstring
  isRead :: bool
  data :: jsval

record notification_doc = new_notification +
  createdAt :: jsstring
  readAt :: "jsstring option"

text \<open>
  The collection \<open>notifications\<close>: documents with their ids, in the store's document order.
  \<open>app_notification\<close> is a document with its id, \<open>{id: doc.id, ...doc.data()}\<close>.
\<close>

type_synonym app_notification = "jsstring \<times> notification_doc"
type_synonym store = "app_notification list"

datatype store_error = NotFound | InvalidArgument

text \<open>
  The store refuses to write a document that holds a field whose value is \<open>undefined\<close>,
  at any depth: the write is rejected with an invalid-argument error and nothing is stored.
  Of the fields of a notification only \<open>data\<close> can hold such a value; an optional field
  that the object does not have at all (\<open>orderId\<close>, \<open>None\<close> here) is not one.
\<close>

definition addDoc :: "jsstring \<Rightarrow> notification_doc \<Rightarrow> store \<Rightarrow> store_error + store" where
  \<comment> \<open>\<open>newId\<close> is the id the store assigns to the new document\<close>
  "addDoc newId d db =
     (if has_undefined (data d) then Inl InvalidArgument else Inr (db @ [(newId, d)]))"

definition createNotification ::
  "jsstring \<Rightarrow> jsstring \<Rightarrow> new_notification \<Rightarrow> store
     \<Rightarrow> store_error + (jsstring \<times> store)" where
  \<comment> \<open>\<open>now\<close> is \<open>new Date().toISOString()\<close>; the result is \<open>docRef.id\<close> and the new store,
      or the rejection of the write\<close>
  "createNotification newId now notification db =
     (case addDoc newId
             (new_notification.extend notification (notification_doc.fields now None)) db of
        Inl error \<Rightarrow> Inl error
      | Inr db' \<Rightarrow> Inr (newId, db'))"



definition createSupplierPaymentNotification ::
  "runtime \<Rightarrow> jsstring \<Rightarrow> jsstring \<Rightarrow> order \<Rightarrow> jsstring \<Rightarrow> jsstring \<Rightarrow> store
     \<Rightarrow> store_error + store" where
  \<comment> \<open>the \<open>switch\<close> yields title, message and emoji; its \<open>default\<close> branch returns at once\<close>
  "createSupplierPaymentNotification rt newId now subOrder oldStatus newStatus db =
    (let texts =
       (if newStatus = str ''paid'' then Some
          (str ''Paiement re'' @ [0x221A, 0xDF] @ str ''u! '' @ [0xF8FF, 0xFC, 0xED, 0x221E],
           str ''Le paiement de '' @ [0x201A, 0xC7, 0xA8] @ toFixed2 rt (total subOrder)
             @ str '' a '' @ [0x221A, 0xA9] @ str ''t'' @ [0x221A, 0xA9] @ str '' re''
             @ [0x221A, 0xDF] @ str ''u pour la commande #'' @ slice_last 8 (order_id subOrder)
             @ str '' de '' @ userName subOrder,
           [0xF8FF, 0xFC, 0xED, 0x221E])
        else if newStatus = str ''failed'' then Some
          (str ''Paiement '' @ [0x221A, 0xA9] @ str ''chou'' @ [0x221A, 0xA9] @ str '' ''
             @ [0x201A, 0xF9, 0xE5],
           str ''Le paiement a '' @ [0x221A, 0xA9] @ str ''chou'' @ [0x221A, 0xA9]
             @ str '' pour la commande #'' @ slice_last 8 (order_id subOrder)
             @ str '' de '' @ userName subOrder @ str ''. Veuillez contacter le client.'',
           [0x201A, 0xF9, 0xE5])
        else if newStatus = str ''pending'' then Some
          (str ''Paiement en attente '' @ [0x201A, 0xE8, 0x2265],
           str ''Le paiement est en attente pour la commande #''
             @ slice_last 8 (order_id subOrder) @ str '' de '' @ userName subOrder,
           [0x201A, 0xE8, 0x2265])
        else if newStatus = str ''refunded'' then Some
          (str ''Paiement rembours'' @ [0x221A, 0xA9] @ str '' '' @ [0xF8FF, 0xFC, 0xED, 0x220F],
           str ''Le paiement de '' @ [0x201A, 0xC7, 0xA8] @ toFixed2 rt (total subOrder)
             @ str '' a '' @ [0x221A, 0xA9] @ str ''t'' @ [0x221A, 0xA9] @ str '' rembours''
             @ [0x221A, 0xA9] @ str '' pour la commande #'' @ slice_last 8 (order_id subOrder)
             @ str '' de '' @ userName subOrder,
           [0xF8FF, 0xFC, 0xED, 0x220F])
        else None)
     in case texts of
       None \<Rightarrow> Inr db
     | Some (title', message', emoji) \<Rightarrow>
         (let notification = \<lparr>
             type = NPayment,
             title = title',
             message = message',
             orderId = Some (order_id subOrder),
             fournisseurId = order.fournisseurId subOrder,
             isRead = False,
             data = VObj
               [(str ''customerName'', VStr (userName subOrder)),
                (str ''customerEmail'', VStr (userEmail subOrder)),
                (str ''orderTotal'', VNum (total subOrder)),
                (str ''oldPaymentStatus'', VStr oldStatus),
                (str ''newPaymentStatus'', VStr newStatus),
                (str ''paymentMethod'', VStr (paymentMethod subOrder)),
                (str ''emoji'', VStr emoji)]
           \<rparr>
          in map_sum (\<lambda>error. error) snd (createNotification newId now notification db)))"

definition statusMessages :: "(jsstring \<times> jsstring) list" where
  "statusMessages =
    [(str ''pending'', str ''en attente''),
     (str ''confirmed'', str ''confirm'' @ [0x221A, 0xA9] @ str ''e''),
     (str ''preparing'', str ''en pr'' @ [0x221A, 0xA9] @ str ''paration''),
     (str ''out_for_delivery'', str ''en livraison''),
     (str ''delivered'', str ''livr'' @ [0x221A, 0xA9] @ str ''e''),
     (str ''cancelled'', str ''annul'' @ [0x221A, 0xA9] @ str ''e'')]"

definition createSupplierOrderStatusNotification ::
  "jsstring \<Rightarrow> jsstring \<Rightarrow> order \<Rightarrow> jsstring \<Rightarrow> jsstring \<Rightarrow> store
     \<Rightarrow> store_error + store" where
  \<comment> \<open>\<open>statusMessages[newStatus] || newStatus\<close>: the empty string is the only falsy message\<close>
  "createSupplierOrderStatusNotification newId now subOrder oldStatus newStatus db =
    (let statusMessage =
       (case get_member statusMessages newStatus of
          Own m \<Rightarrow> if m = [] then newStatus else m
        | Inherited rendering \<Rightarrow> rendering
        | Missing \<Rightarrow> newStatus);
         notification = \<lparr>
           type = NOrder,
           title = str ''Statut de commande mis '' @ [0x221A, 0x2020] @ str '' jour'',
           message = str ''La commande de '' @ userName subOrder @ str '' est maintenant ''
             @ statusMessage @ str ''.'',
           orderId = Some (order_id subOrder),
           fournisseurId = order.fournisseurId subOrder,
           isRead = False,
           data = VObj
             [(str ''customerName'', VStr (userName subOrder)),
              (str ''orderTotal'', VNum (total subOrder)),
              (str ''oldStatus'', VStr oldStatus),
              (str ''newStatus'', VStr newStatus),
              (str ''orderStatus'', VStr newStatus)]
         \<rparr>
     in map_sum (\<lambda>error. error) snd (createNotification newId now notification db))"

definition createSystemNotification ::
  "jsstring \<Rightarrow> jsstring \<Rightarrow> jsstring \<Rightarrow> jsstring \<Rightarrow> jsstring \<Rightarrow> jsval \<Rightarrow> store
     \<Rightarrow> store_error + store" where
  \<comment> \<open>an omitted \<open>data\<close> argument is \<open>VUndefined\<close>\<close>
  "createSystemNotification newId now fournisseurId' title' message' data' db =
    (let notification = \<lparr>
        type = NSystem,
        title = title',
        message = message',
        orderId = None,
        fournisseurId = fournisseurId',
        isRead = False,
        data = data'
      \<rparr>
     in map_sum (\<lambda>error. error) snd (createNotification newId now notification db))"


subsection \<open>Queries and writes of the store\<close>

text \<open>
  The store is the external document database. Its part in the program is modelled as far as
  the service uses it: \<open>where\<close> keeps the matching documents, \<open>orderBy('createdAt', 'desc')\<close>
  sorts them by the \<open>createdAt\<close> string, newest first (documents with equal \<open>createdAt\<close> stay
  in document order), \<open>limit\<close> keeps a prefix and rejects a count that is not positive. An
  update of a document that does not exist is rejected, and a batch is committed as a whole or
  not at all. A rejected operation leaves the store as it was; the result \<open>Inl e\<close> stands for
  the rejected promise. A document with an \<open>undefined\<close> field is refused in a batch as it
  is by \<open>addDoc\<close>. Beyond this the store is taken to be available.
\<close>

definition where_fournisseurId :: "jsstring \<Rightarrow> store \<Rightarrow> store" where
  "where_fournisseurId fid db = filter (\<lambda>(i, d). fournisseurId d = fid) db"

definition where_isRead :: "bool \<Rightarrow> store \<Rightarrow> store" where
  "where_isRead b db = filter (\<lambda>(i, d). isRead d = b) db"

definition type_name :: "notification_type \<Rightarrow> jsstring" where
  "type_name t = (case t of NOrder \<Rightarrow> str ''order'' | NPayment \<Rightarrow> str ''payment''
     | NSystem \<Rightarrow> str ''system'' | NProduct \<Rightarrow> str ''product'')"

definition where_type :: "jsstring \<Rightarrow> store \<Rightarrow> store" where
  "where_type t db = filter (\<lambda>(i, d). type_name (type d) = t) db"


fun insert_desc :: "app_notification \<Rightarrow> app_notification list \<Rightarrow> app_notification list" where
  "insert_desc x [] = [x]"
| "insert_desc x (y # ys) =
     (if createdAt (snd y) \<le> createdAt (snd x) then x # y # ys else y # insert_desc x ys)"

definition orderBy_createdAt_desc :: "store \<Rightarrow> app_notification list" where
  "orderBy_createdAt_desc db = foldr insert_desc db []"

definition limit :: "int \<Rightarrow> app_notification list \<Rightarrow> store_error + app_notification list" where
  "limit n xs = (if n \<le> 0 then Inl InvalidArgument else Inr (take (nat n) xs))"

definition mark_read :: "jsstring \<Rightarrow> notification_doc \<Rightarrow> notification_doc" where
  \<comment> \<open>the update \<open>{isRead: true, readAt: now}\<close>\<close>
  "mark_read now d = d\<lparr>isRead := True, readAt := Some now\<rparr>"

datatype batch_op =
    BUpdate jsstring "notification_doc \<Rightarrow> notification_doc"
  | BDelete jsstring
  | BSet jsstring notification_doc

fun apply_op :: "batch_op \<Rightarrow> store \<Rightarrow> store_error + store" where
  "apply_op (BUpdate i f) db =
     (if i \<in> fst ` set db then Inr (map (\<lambda>(j, d). if j = i then (j, f d) else (j, d)) db)
      else Inl NotFound)"
| "apply_op (BDelete i) db = Inr (filter (\<lambda>(j, d). j \<noteq> i) db)"
| "apply_op (BSet i d') db =
     (if has_undefined (data d') then Inl InvalidArgument
      else if i \<in> fst ` set db
      then Inr (map (\<lambda>(j, d). if j = i then (j, d') else (j, d)) db)
      else addDoc i d' db)"

fun commit :: "batch_op list \<Rightarrow> store \<Rightarrow> store_error + store" where
  "commit [] db = Inr db"
| "commit (op # ops) db =
     (case apply_op op db of Inl e \<Rightarrow> Inl e | Inr db' \<Rightarrow> commit ops db')"



subsection \<open>The operations of NotificationService\<close>

text \<open>
  Each operation takes the store and returns its result, and the new store when it writes.
  \<open>clock k\<close> is the value of the \<open>k\<close>-th evaluation of \<open>new Date().toISOString()\<close> within a
  call that evaluates it once per document.
\<close>

definition getNotificationsByFournisseur ::
  "jsstring \<Rightarrow> int \<Rightarrow> jsstring option \<Rightarrow> store \<Rightarrow> store_error + app_notification list" where
  \<comment> \<open>\<open>limitCount\<close> defaults to 50 at the call; \<open>lastNotificationId\<close> is optional\<close>
  "getNotificationsByFournisseur fournisseurId' limitCount lastNotificationId db =
     limit limitCount (orderBy_createdAt_desc (where_fournisseurId fournisseurId' db))"

definition searchNotifications ::
  "runtime \<Rightarrow> jsstring \<Rightarrow> jsstring \<Rightarrow> jsstring option \<Rightarrow> store \<Rightarrow> app_notification list" where
  "searchNotifications rt fournisseurId' searchTerm type' db =
    (let notificationsQuery =
       (case type' of
          Some t \<Rightarrow>
            if t \<noteq> [] \<and> t \<noteq> str ''all''
            then orderBy_createdAt_desc (where_type t (where_fournisseurId fournisseurId' db))
            else orderBy_createdAt_desc (where_fournisseurId fournisseurId' db)
        | None \<Rightarrow> orderBy_createdAt_desc (where_fournisseurId fournisseurId' db));
         notifications = notificationsQuery
     in if searchTerm \<noteq> [] then
          (let lowerSearchTerm = toLowerCase rt searchTerm
           in filter (\<lambda>(i, notification).
                js_includes (toLowerCase rt (title notification)) lowerSearchTerm \<or>
                js_includes (toLowerCase rt (message notification)) lowerSearchTerm)
              notifications)
        else notifications)"



definition markAllAsRead ::
  "(nat \<Rightarrow> jsstring) \<Rightarrow> jsstring \<Rightarrow> store \<Rightarrow> store_error + store" where
  "markAllAsRead clock fournisseurId' db =
    (let snapshot = where_isRead False (where_fournisseurId fournisseurId' db)
     in commit (map (\<lambda>(k, (i, d)). BUpdate i (mark_read (clock k)))
                  (zip [0..<length snapshot] snapshot)) db)"



definition getUnreadCount :: "jsstring \<Rightarrow> store \<Rightarrow> nat" where
  "getUnreadCount fournisseurId' db =
     length (where_isRead False (where_fournisseurId fournisseurId' db))"

record notification_stats =
  stats_total :: nat
  unread :: nat
  byType :: "(jsstring \<times> nat) list"
  recent :: nat

definition getNotificationStats ::
  "runtime \<Rightarrow> int \<Rightarrow> jsstring \<Rightarrow> store \<Rightarrow> notification_stats" where
  \<comment> \<open>\<open>nowMs\<close> is \<open>now.getTime()\<close>; a \<open>createdAt\<close> that is no date compares false\<close>
  "getNotificationStats rt nowMs fournisseurId' db =
    (let notifications = map snd (where_fournisseurId fournisseurId' db);
         yesterday = nowMs - 24 * 60 * 60 * 1000;
         stats = \<lparr>
           stats_total = length notifications,
           unread = length (filter (\<lambda>n. \<not> isRead n) notifications),
           byType = [],
           recent = length (filter (\<lambda>n. case getTime rt (createdAt n) of
                                          None \<Rightarrow> False | Some t \<Rightarrow> t > yesterday) notifications)
         \<rparr>
     in fold (\<lambda>notification st.
          st\<lparr>byType := AList.update (type_name (type notification))
                ((case map_of (byType st) (type_name (type notification)) of
                    None \<Rightarrow> 0 | Some c \<Rightarrow> c) + 1)
                (byType st)\<rparr>)
        notifications stats)"

definition subscribeToNotifications ::
  "jsstring \<Rightarrow> (app_notification list \<Rightarrow> 'r) \<Rightarrow> store \<Rightarrow> 'r" where
  \<comment> \<open>what the listener does on a snapshot of the store \<open>db\<close>: it calls \<open>callback\<close>\<close>
  "subscribeToNotifications fournisseurId' callback db =
     callback (take 50 (orderBy_createdAt_desc (where_fournisseurId fournisseurId' db)))"

definition subscribeToUnreadCount :: "jsstring \<Rightarrow> (nat \<Rightarrow> 'r) \<Rightarrow> store \<Rightarrow> 'r" where
  "subscribeToUnreadCount fournisseurId' callback db =
     callback (length (where_isRead False (where_fournisseurId fournisseurId' db)))"



subsection \<open>The writing operations as steps on the store\<close>





section \<open>Notions and examples used in the statements\<close>

subsection \<open>Reading a payload\<close>

definition data_field :: "jsval \<Rightarrow> jsstring \<Rightarrow> jsval" where
  \<comment> \<open>\<open>data.key\<close>\<close>
  "data_field v key = (case v of
      VObj props \<Rightarrow> (case map_of props key of Some x \<Rightarrow> x | None \<Rightarrow> VUndefined)
    | _ \<Rightarrow> VUndefined)"

subsection \<open>Scoped reads, marked documents, kinds of batch operation\<close>

definition scoped :: "jsstring \<Rightarrow> app_notification list \<Rightarrow> bool" where
  \<comment> \<open>every notification of the list belongs to the recipient \<open>fid\<close>\<close>
  "scoped fid xs = list_all (\<lambda>(i, d). fournisseurId d = fid) xs"

definition marked ::
  "(jsstring \<times> jsstring) list \<Rightarrow> jsstring \<Rightarrow> notification_doc \<Rightarrow> notification_doc" where
  \<comment> \<open>the document with id \<open>j\<close> after the updates \<open>(i, t)\<close>: read at \<open>t\<close>, for each \<open>i = j\<close>\<close>
  "marked ops j d = fold (\<lambda>(i, t) d. if i = j then mark_read t d else d) ops d"



subsection \<open>Examples\<close>

definition testOrder :: order where
  \<comment> \<open>\<open>testOrder\<close> of \<open>EmailTestComponent\<close>\<close>
  "testOrder = \<lparr>
     order_id = str ''TEST123456789'',
     fournisseurId = str ''test-supplier-123'',
     fournisseurName = str ''Test Supplier'',
     userEmail = str ''test@example.com'',
     userName = str ''Test Customer'',
     userPhone = str ''+1234567890'',
     total = 33.59,
     status = str ''pending'',
     paymentStatus = str ''pending'',
     paymentMethod = str ''Credit Card'',
     deliveryAddress = \<lparr>
       street = str ''123 Test Street'',
       city = str ''Test City'',
       postalCode = str ''12345'',
       country = str ''Test Country'',
       instructions = Some (str ''Ring doorbell twice'') \<rparr>,
     orderNotes = str ''This is a test order for email verification'',
     items = [
       \<lparr> productName = str ''Test Product 1'', quantity = 2, unitPrice = 12.99,
         totalPrice = 25.98, unit = str ''pieces'' \<rparr>,
       \<lparr> productName = str ''Test Product 2'', quantity = 1, unitPrice = 7.61,
         totalPrice = 7.61, unit = str ''pieces'' \<rparr>] \<rparr>"

definition example_store :: store where
  \<comment> \<open>a status notification for the supplier of \<open>testOrder\<close>, then a system notification
      for another supplier\<close>
  "example_store =
    (case createSupplierOrderStatusNotification (str ''n1'') (str ''2025-01-01T09:30:00.000Z'')
            testOrder (str ''pending'') (str ''confirmed'') [] of
       Inl error \<Rightarrow> []
     | Inr db1 \<Rightarrow>
        (case createSystemNotification (str ''n2'') (str ''2025-01-02T10:00:00.000Z'')
                (str ''supplier-b'') (str ''Maintenance'') (str ''Planned maintenance tonight'')
                (VObj [(str ''window'', VStr (str ''22:00-23:00''))]) db1 of
           Inl error \<Rightarrow> db1
         | Inr db2 \<Rightarrow> db2))"

text \<open>
  Four enhanced notifications of mixed priority, two of them with the same timestamp, and
  two email providers: one that rejects every send and one that accepts every send.
\<close>

definition example_notifications :: "enhanced_notification list" where
  "example_notifications =
    [\<lparr>enhanced_id = str ''a'', type = str ''product'', title = str ''Stock bas'',
      message = str ''Le stock est bas'', priority = Low, isRead = False, clicked = False,
      createdAt = str ''200''\<rparr>,
     \<lparr>enhanced_id = str ''b'', type = str ''order'', title = str ''Nouvelle commande'',
      message = str ''Commande de Test Customer'', priority = High, isRead = False, clicked = True,
      createdAt = str ''100''\<rparr>,
     \<lparr>enhanced_id = str ''c'', type = str ''payment'', title = str ''Paiement'',
      message = str ''Paiement en attente'', priority = Medium, isRead = True, clicked = False,
      createdAt = str ''200''\<rparr>,
     \<lparr>enhanced_id = str ''d'', type = str ''order'', title = str ''Nouvelle commande'',
      message = str ''Commande de Test Customer'', priority = High, isRead = False, clicked = False,
      createdAt = str ''300''\<rparr>]"

definition failing_provider :: email_provider where
  "failing_provider call = Inl (ProviderError (str ''Network Error''))"

definition accepting_provider :: email_provider where
  "accepting_provider call = Inr (str ''OK'')"

section \<open>Properties of the notification factory\<close>

lemma data_extend [simp]:
  "data (new_notification.extend n (notification_doc.fields now None)) = data n"
  by (simp add: new_notification.extend_def notification_doc.fields_def)


lemma includes_middle: "js_includes (a @ b @ c @ m @ e) m"
proof -
  have "sublist m ((a @ b @ c) @ m @ e)" by (rule sublist_appendI)
  then show ?thesis by (simp add: js_includes_def)
qed

subsection \<open>Payment transitions\<close>

lemma payment_notification_created:
  "newStatus \<in> {str ''paid'', str ''failed'', str ''pending'', str ''refunded''} \<Longrightarrow>
   \<exists>d. createSupplierPaymentNotification rt newId now subOrder oldStatus newStatus db
          = Inr (db @ [(newId, d)])
      \<and> type d = NPayment
      \<and> data_field (data d) (str ''newPaymentStatus'') = VStr newStatus"
  by (auto simp add: createSupplierPaymentNotification_def createNotification_def addDoc_def
      new_notification.extend_def notification_doc.fields_def data_field_def Let_def str_def)

lemma payment_notification_filtered:
  "newStatus \<notin> {str ''paid'', str ''failed'', str ''pending'', str ''refunded''} \<Longrightarrow>
   createSupplierPaymentNotification rt newId now subOrder oldStatus newStatus db = Inr db"
  by (simp add: createSupplierPaymentNotification_def)

text \<open>
  Claim C1. A payment transition creates exactly one notification for the new statuses paid,
  failed, pending and refunded and none for any other (the two lemmas above); for \<open>paid\<close> the
  record has type payment and \<open>data.newPaymentStatus = "paid"\<close>, and its title is to contain
  the French word spelt r, e, c-cedilla (U+00E7), u. The first parts hold. The title does not:
  for every order, the title written for \<open>paid\<close> is the literal of the source file, in which
  the c-cedilla is stored as the two characters U+221A U+00DF, so the word does not occur in it.
\<close>

theorem payment_paid_title_lacks_recu:
  "\<exists>d. createSupplierPaymentNotification rt newId now subOrder oldStatus (str ''paid'') db
          = Inr (db @ [(newId, d)])
      \<and> type d = NPayment
      \<and> data_field (data d) (str ''newPaymentStatus'') = VStr (str ''paid'')
      \<and> title d = str ''Paiement re'' @ [0x221A, 0xDF] @ str ''u! '' @ [0xF8FF, 0xFC, 0xED, 0x221E]
      \<and> \<not> js_includes (title d) (str ''re'' @ [0xE7] @ str ''u'')"
  by (simp add: createSupplierPaymentNotification_def createNotification_def addDoc_def
      new_notification.extend_def notification_doc.fields_def data_field_def js_includes_def
      str_def sublist_code prefix_code)

subsection \<open>Order-status transitions\<close>

lemma status_message_text:
  "\<exists>d. createSupplierOrderStatusNotification newId now subOrder oldStatus newStatus db
          = Inr (db @ [(newId, d)])
      \<and> message d = str ''La commande de '' @ userName subOrder @ str '' est maintenant ''
           @ (case get_member statusMessages newStatus of
                Own m \<Rightarrow> if m = [] then newStatus else m
              | Inherited rendering \<Rightarrow> rendering
              | Missing \<Rightarrow> newStatus) @ str ''.''"
  by (simp add: createSupplierOrderStatusNotification_def createNotification_def addDoc_def
      new_notification.extend_def notification_doc.fields_def Let_def)

lemma statusMessages_distinct: "distinct (map fst statusMessages)"
  by (simp add: statusMessages_def str_def)

lemma statusMessages_nonempty: "(k, phrase) \<in> set statusMessages \<Longrightarrow> phrase \<noteq> []"
  by (auto simp: statusMessages_def str_def)

lemma get_member_statusMessages:
  assumes "(newStatus, phrase) \<in> set statusMessages"
  shows "get_member statusMessages newStatus = Own phrase \<and> phrase \<noteq> []"
proof -
  from assms statusMessages_distinct have "map_of statusMessages newStatus = Some phrase"
    by (rule_tac map_of_is_SomeI)
  with statusMessages_nonempty[OF assms] show ?thesis by (simp add: get_member_def)
qed

lemma known_status_phrase:
  assumes "(newStatus, phrase) \<in> set statusMessages"
  shows "\<exists>d. createSupplierOrderStatusNotification newId now subOrder oldStatus newStatus db
               = Inr (db @ [(newId, d)])
           \<and> js_includes (message d) phrase"
proof -
  from status_message_text obtain d where
    d: "createSupplierOrderStatusNotification newId now subOrder oldStatus newStatus db
          = Inr (db @ [(newId, d)])"
    and m: "message d = str ''La commande de '' @ userName subOrder @ str '' est maintenant ''
         @ (case get_member statusMessages newStatus of
              Own m \<Rightarrow> if m = [] then newStatus else m
            | Inherited rendering \<Rightarrow> rendering
            | Missing \<Rightarrow> newStatus) @ str ''.''" by blast
  from get_member_statusMessages[OF assms] m
  have "message d = str ''La commande de '' @ userName subOrder @ str '' est maintenant ''
          @ phrase @ str ''.''"
    by simp
  then have "js_includes (message d) phrase" by (simp only: includes_middle)
  with d show ?thesis by blast
qed

lemma out_for_delivery_phrase:
  "\<exists>d. createSupplierOrderStatusNotification newId now subOrder oldStatus
          (str ''out_for_delivery'') db = Inr (db @ [(newId, d)])
      \<and> js_includes (message d) (str ''en livraison'')"
  by (rule known_status_phrase) (simp add: statusMessages_def)

lemma missing_status_echoed:
  assumes "get_member statusMessages newStatus = Missing"
  shows "\<exists>d. createSupplierOrderStatusNotification newId now subOrder oldStatus newStatus db
               = Inr (db @ [(newId, d)])
           \<and> js_includes (message d) newStatus"
proof -
  from status_message_text obtain d where
    d: "createSupplierOrderStatusNotification newId now subOrder oldStatus newStatus db
          = Inr (db @ [(newId, d)])"
    and m: "message d = str ''La commande de '' @ userName subOrder @ str '' est maintenant ''
         @ (case get_member statusMessages newStatus of
              Own m \<Rightarrow> if m = [] then newStatus else m
            | Inherited rendering \<Rightarrow> rendering
            | Missing \<Rightarrow> newStatus) @ str ''.''" by blast
  from assms m
  have "message d = str ''La commande de '' @ userName subOrder @ str '' est maintenant ''
          @ newStatus @ str ''.''"
    by simp
  then have "js_includes (message d) newStatus" by (simp only: includes_middle)
  with d show ?thesis by blast
qed

lemma foo_status_echoed:
  "\<exists>d. createSupplierOrderStatusNotification newId now subOrder oldStatus (str ''foo'') db
          = Inr (db @ [(newId, d)])
      \<and> js_includes (message d) (str ''foo'')"
  by (rule missing_status_echoed)
     (simp add: get_member_def statusMessages_def object_prototype_members_def str_def)

text \<open>
  Claim C4. An order-status transition always creates a notification; for the six known
  statuses its message contains the phrase of \<open>statusMessages\<close> (\<open>en livraison\<close> for
  \<open>out_for_delivery\<close>), and for any other status string it is to contain that string. The
  known statuses and \<open>foo\<close> behave so (lemmas above). The lookup \<open>statusMessages[newStatus]\<close>
  also finds what the table inherits from \<open>Object.prototype\<close>: for the status \<open>__proto__\<close> it
  yields the prototype object, which is truthy, so the fallback \<open>|| newStatus\<close> is not taken
  and the message reads \<open>[object Object]\<close> where the status should be.
\<close>

theorem order_status_proto_not_echoed:
  "\<exists>d. createSupplierOrderStatusNotification newId now testOrder oldStatus (str ''__proto__'') db
          = Inr (db @ [(newId, d)])
      \<and> message d = str ''La commande de Test Customer est maintenant [object Object].''
      \<and> \<not> js_includes (message d) (str ''__proto__'')"
  by (simp add: createSupplierOrderStatusNotification_def createNotification_def addDoc_def
      new_notification.extend_def notification_doc.fields_def get_member_def statusMessages_def
      object_prototype_members_def native_function_def testOrder_def
      js_includes_def str_def sublist_code prefix_code)

subsection \<open>Construction and persistence\<close>





section \<open>Properties of the store adapter\<close>

text \<open>
  Claim C9. \<open>getNotificationsByFournisseur\<close> never reads its cursor \<open>lastNotificationId\<close>: two
  calls that differ only in the cursor run the same query, the newest \<open>limitCount\<close>
  notifications of the supplier, and return the same result.
\<close>

theorem getNotificationsByFournisseur_ignores_cursor:
  "getNotificationsByFournisseur fid limitCount cursor1 db
     = getNotificationsByFournisseur fid limitCount cursor2 db
   \<and> getNotificationsByFournisseur fid limitCount cursor1 db
     = limit limitCount (orderBy_createdAt_desc (where_fournisseurId fid db))"
  by (simp add: getNotificationsByFournisseur_def)


subsection \<open>Reads are scoped by the recipient\<close>

lemma set_insert_desc: "set (insert_desc x ys) = insert x (set ys)"
  by (induction ys) auto

lemma set_orderBy_createdAt_desc: "set (orderBy_createdAt_desc xs) = set xs"
  by (induction xs) (simp_all add: orderBy_createdAt_desc_def set_insert_desc)

lemma scoped_where: "scoped fid (where_fournisseurId fid db)"
  by (auto simp: scoped_def where_fournisseurId_def list_all_iff)

lemma scoped_subset: "scoped fid xs \<Longrightarrow> set ys \<subseteq> set xs \<Longrightarrow> scoped fid ys"
  by (auto simp: scoped_def list_all_iff)

lemma scoped_ordered: "scoped fid (orderBy_createdAt_desc (where_fournisseurId fid db))"
  by (rule scoped_subset[OF scoped_where[of fid db]]) (simp add: set_orderBy_createdAt_desc)

lemma scoped_get:
  "getNotificationsByFournisseur fid n c db = Inr xs \<Longrightarrow> scoped fid xs"
  by (auto simp: getNotificationsByFournisseur_def limit_def split: if_splits
      intro!: scoped_subset[OF scoped_ordered[of fid db]] dest: in_set_takeD)

lemma scoped_search: "scoped fid (searchNotifications rt fid searchTerm ty db)"
proof -
  have "set (searchNotifications rt fid searchTerm ty db) \<subseteq> set (where_fournisseurId fid db)"
    by (auto simp: searchNotifications_def Let_def set_orderBy_createdAt_desc where_type_def
        split: option.splits if_splits)
  with scoped_where[of fid db] show ?thesis by (rule scoped_subset)
qed

lemma scoped_subscribe:
  "scoped fid (take 50 (orderBy_createdAt_desc (where_fournisseurId fid db)))"
  by (rule scoped_subset[OF scoped_ordered[of fid db]]) (rule set_take_subset)

lemma unread_count_filter:
  "length (where_isRead False (where_fournisseurId fid db))
     = length (filter (\<lambda>(i, d). fournisseurId d = fid \<and> \<not> isRead d) db)"
  by (induction db) (auto simp: where_isRead_def where_fournisseurId_def)

text \<open>
  Claim C2. Every read of the store adapter is scoped by the recipient: what
  \<open>getNotificationsByFournisseur\<close>, \<open>searchNotifications\<close> and the notification listener
  deliver are notifications of the requested recipient only, the counts count that
  recipient's unread notifications, and on two stores that hold the same notifications for
  the recipient (and differ in any way in those of other recipients) each of the six reads
  gives the same result.
\<close>

theorem reads_scoped_by_recipient:
  assumes "where_fournisseurId fid db = where_fournisseurId fid db'"
  shows "getNotificationsByFournisseur fid n c db = getNotificationsByFournisseur fid n c db'
       \<and> (case getNotificationsByFournisseur fid n c db of Inr xs \<Rightarrow> scoped fid xs | Inl e \<Rightarrow> True)
       \<and> searchNotifications rt fid searchTerm ty db = searchNotifications rt fid searchTerm ty db'
       \<and> scoped fid (searchNotifications rt fid searchTerm ty db)
       \<and> getUnreadCount fid db = getUnreadCount fid db'
       \<and> getNotificationStats rt nowMs fid db = getNotificationStats rt nowMs fid db'
       \<and> (\<exists>xs. subscribeToNotifications fid callback db = callback xs
              \<and> subscribeToNotifications fid callback db' = callback xs \<and> scoped fid xs)
       \<and> (\<exists>k. subscribeToUnreadCount fid countCallback db = countCallback k
              \<and> subscribeToUnreadCount fid countCallback db' = countCallback k
              \<and> k = length (filter (\<lambda>(i, d). fournisseurId d = fid \<and> \<not> isRead d) db))"
proof -
  have 1: "getNotificationsByFournisseur fid n c db = getNotificationsByFournisseur fid n c db'"
    by (simp only: getNotificationsByFournisseur_def assms)
  have 2: "case getNotificationsByFournisseur fid n c db of Inr xs \<Rightarrow> scoped fid xs | Inl e \<Rightarrow> True"
    by (auto split: sum.splits intro: scoped_get)
  have 3: "searchNotifications rt fid searchTerm ty db = searchNotifications rt fid searchTerm ty db'"
    by (simp only: searchNotifications_def assms)
  have 5: "getUnreadCount fid db = getUnreadCount fid db'"
    by (simp only: getUnreadCount_def assms)
  have 6: "getNotificationStats rt nowMs fid db = getNotificationStats rt nowMs fid db'"
    by (simp only: getNotificationStats_def assms)
  have 7: "\<exists>xs. subscribeToNotifications fid callback db = callback xs
              \<and> subscribeToNotifications fid callback db' = callback xs \<and> scoped fid xs"
    using scoped_subscribe[of fid db] by (auto simp only: subscribeToNotifications_def assms[symmetric])
  have cnt: "length (where_isRead False (where_fournisseurId fid db))
      = length (filter (\<lambda>(i, d). fournisseurId d = fid \<and> \<not> isRead d) db)"
    by (induction db) (auto simp: where_isRead_def where_fournisseurId_def)
  have 8: "\<exists>k. subscribeToUnreadCount fid countCallback db = countCallback k
              \<and> subscribeToUnreadCount fid countCallback db' = countCallback k
              \<and> k = length (filter (\<lambda>(i, d). fournisseurId d = fid \<and> \<not> isRead d) db)"
    using cnt by (simp only: subscribeToUnreadCount_def assms[symmetric]) blast
  from 1 2 3 scoped_search 5 6 7 8 show ?thesis by blast
qed

lemma example_store_eq:
  "\<exists>d1 d2. example_store = [(str ''n1'', d1), (str ''n2'', d2)]
     \<and> fournisseurId d1 = str ''test-supplier-123'' \<and> fournisseurId d2 = str ''supplier-b''
     \<and> \<not> isRead d1 \<and> \<not> isRead d2"
  by (simp add: example_store_def createSystemNotification_def
      createSupplierOrderStatusNotification_def createNotification_def addDoc_def
      new_notification.extend_def notification_doc.fields_def testOrder_def Let_def)

lemma str_neq: "str ''test-supplier-123'' \<noteq> str ''supplier-b''" "str ''n1'' \<noteq> str ''n2''"
  by (simp_all add: str_def)

theorem reads_scoped_by_recipient_witness:
  "where_fournisseurId (str ''test-supplier-123'') example_store
     = where_fournisseurId (str ''test-supplier-123'') (take 1 example_store)
   \<and> getUnreadCount (str ''test-supplier-123'') example_store
     = getUnreadCount (str ''test-supplier-123'') (take 1 example_store)
   \<and> scoped (str ''test-supplier-123'')
       (searchNotifications example_runtime (str ''test-supplier-123'') (str ''commande'') None
          example_store)"
proof -
  from example_store_eq obtain d1 d2 where
    e: "example_store = [(str ''n1'', d1), (str ''n2'', d2)]"
    and f: "fournisseurId d1 = str ''test-supplier-123''" "fournisseurId d2 = str ''supplier-b''"
    by blast
  have h: "where_fournisseurId (str ''test-supplier-123'') example_store
     = where_fournisseurId (str ''test-supplier-123'') (take 1 example_store)"
    using str_neq by (simp add: e f where_fournisseurId_def)
  from reads_scoped_by_recipient[OF h, where rt = example_runtime] h show ?thesis by blast
qed


subsection \<open>Marking all notifications of a supplier as read\<close>

lemma marked_Nil [simp]: "marked [] j d = d" by (simp add: marked_def)
lemma marked_Cons [simp]: "marked ((i, t) # ops) j d = marked ops j (if i = j then mark_read t d else d)"
  by (simp add: marked_def)

lemma marked_fournisseurId [simp]: "fournisseurId (marked ops j d) = fournisseurId d"
  by (induction ops arbitrary: d) (auto simp: mark_read_def)

lemma marked_isRead [simp]: "isRead (marked ops j d) = (isRead d \<or> j \<in> fst ` set ops)"
  by (induction ops arbitrary: d) (force simp: mark_read_def split: if_splits)+

lemma apply_update_ids:
  "fst ` set (map (\<lambda>(j, d). if j = i then (j, f d) else (j, d)) db) = fst ` set db"
  by (induction db) auto

lemma commit_updates:
  "fst ` set ops \<subseteq> fst ` set db \<Longrightarrow>
   commit (map (\<lambda>(i, t). BUpdate i (mark_read t)) ops) db
     = Inr (map (\<lambda>(j, d). (j, marked ops j d)) db)"
proof (induction ops arbitrary: db)
  case Nil
  then show ?case by simp
next
  case (Cons op ops)
  obtain i t where op: "op = (i, t)" by (cases op)
  let ?db1 = "map (\<lambda>(j, d). if j = i then (j, mark_read t d) else (j, d)) db"
  from Cons.prems op have i: "i \<in> fst ` set db" and rest: "fst ` set ops \<subseteq> fst ` set db" by auto
  have ids: "fst ` set ?db1 = fst ` set db" by (rule apply_update_ids)
  from rest ids have "fst ` set ops \<subseteq> fst ` set ?db1" by simp
  from Cons.IH[OF this]
  have "commit (map (\<lambda>(i, t). BUpdate i (mark_read t)) ops) ?db1
     = Inr (map (\<lambda>(j, d). (j, marked ops j d)) ?db1)" .
  moreover have "map (\<lambda>(j, d). (j, marked ops j d)) ?db1 = map (\<lambda>(j, d). (j, marked (op # ops) j d)) db"
    by (auto simp: op)
  ultimately show ?case using i by (simp add: op)
qed

lemma snapshot_ops_ids:
  "fst ` set (map (\<lambda>(k, (i, d)). (i, clock k)) (zip [0..<length s] s)) = fst ` set s"
proof -
  have "map fst (map (\<lambda>(k, (i, d)). (i, clock k)) (zip [0..<length s] s)) = map fst s"
    by (rule nth_equalityI) (simp_all add: case_prod_beta)
  then have "set (map fst (map (\<lambda>(k, (i, d)). (i, clock k)) (zip [0..<length s] s)))
      = set (map fst s)" by (rule arg_cong)
  then show ?thesis by (simp only: set_map)
qed

lemma markAllAsRead_result:
  "markAllAsRead clock fid db =
     Inr (map (\<lambda>(j, d). (j, marked (map (\<lambda>(k, (i, d)). (i, clock k))
            (zip [0..<length (where_isRead False (where_fournisseurId fid db))]
                 (where_isRead False (where_fournisseurId fid db)))) j d)) db)"
proof -
  let ?s = "where_isRead False (where_fournisseurId fid db)"
  let ?ops = "map (\<lambda>(k, (i, d)). (i, clock k)) (zip [0..<length ?s] ?s)"
  have "set ?s \<subseteq> set db" by (auto simp: where_isRead_def where_fournisseurId_def)
  then have "fst ` set ?ops \<subseteq> fst ` set db" unfolding snapshot_ops_ids by blast
  then have committed: "commit (map (\<lambda>(i, t). BUpdate i (mark_read t)) ?ops) db
      = Inr (map (\<lambda>(j, d). (j, marked ?ops j d)) db)"
    by (rule commit_updates)
  have eq: "map (\<lambda>(k, (i, d)). BUpdate i (mark_read (clock k))) (zip [0..<length ?s] ?s)
      = map (\<lambda>(i, t). BUpdate i (mark_read t)) ?ops"
    by (auto simp: comp_def split: prod.splits)
  have "markAllAsRead clock fid db
      = commit (map (\<lambda>(k, (i, d)). BUpdate i (mark_read (clock k))) (zip [0..<length ?s] ?s)) db"
    by (simp only: markAllAsRead_def Let_def)
  also have "\<dots> = commit (map (\<lambda>(i, t). BUpdate i (mark_read t)) ?ops) db"
    by (simp only: eq)
  also note committed
  finally show ?thesis .
qed

lemma markAllAsRead_leaves_no_unread:
  assumes "markAllAsRead clock fid db = Inr db1"
  shows "where_isRead False (where_fournisseurId fid db1) = []"
proof -
  let ?s = "where_isRead False (where_fournisseurId fid db)"
  let ?ops = "map (\<lambda>(k, (i, d)). (i, clock k)) (zip [0..<length ?s] ?s)"
  from assms markAllAsRead_result[of clock fid db]
  have db1: "db1 = map (\<lambda>(j, d). (j, marked ?ops j d)) db" by simp
  have "\<And>j d. (j, d) \<in> set db \<Longrightarrow> fournisseurId d = fid \<Longrightarrow> \<not> isRead d \<Longrightarrow> j \<in> fst ` set ?ops"
  proof -
    fix j d assume "(j, d) \<in> set db" "fournisseurId d = fid" "\<not> isRead d"
    then have "(j, d) \<in> set ?s" by (simp add: where_isRead_def where_fournisseurId_def)
    then have "j \<in> fst ` set ?s" by force
    then show "j \<in> fst ` set ?ops" by (simp only: snapshot_ops_ids)
  qed
  then show ?thesis
    unfolding db1 where_isRead_def where_fournisseurId_def
    by (auto simp: filter_empty_conv)
qed

text \<open>
  Claim C6. \<open>markAllAsRead\<close> is idempotent: from every store, for every supplier, the first
  application succeeds, a second application (at any later clock readings) leaves the store
  exactly as the first left it, and after the first application \<open>getUnreadCount\<close> is 0.
\<close>

theorem markAllAsRead_idempotent:
  "\<exists>db1. markAllAsRead clock1 fid db = Inr db1
       \<and> markAllAsRead clock2 fid db1 = Inr db1
       \<and> getUnreadCount fid db1 = 0"
proof -
  from markAllAsRead_result[of clock1 fid db] obtain db1 where
    db1: "markAllAsRead clock1 fid db = Inr db1" by blast
  from markAllAsRead_leaves_no_unread[OF db1]
  have none: "where_isRead False (where_fournisseurId fid db1) = []" .
  then have "markAllAsRead clock2 fid db1 = Inr db1"
    by (simp add: markAllAsRead_def)
  moreover from none have "getUnreadCount fid db1 = 0" by (simp add: getUnreadCount_def)
  ultimately show ?thesis using db1 by blast
qed


subsection \<open>Notifications are created unread and become read only by marking\<close>















section \<open>Properties of the email dispatcher\<close>

lemma try_cases:
  "sendOrderNotification_try rt send service order' = (Inr False, [])
   \<or> sendOrderNotification_try rt send service order' = (Inl TypeError, [])
   \<or> (\<exists>call error. sendOrderNotification_try rt send service order' = (Inl error, [call])
          \<and> send call = Inl error)
   \<or> (\<exists>call response. sendOrderNotification_try rt send service order' = (Inr True, [call])
          \<and> send call = Inr response)"
proof (cases "get_member ORDER_STATUS_TEMPLATES (status order')")
  case (Own template)
  let ?call = "(serviceId (config service), orderNotificationTemplateId (config service),
                orderTemplateParams rt order' template)"
  show ?thesis
  proof (cases "send ?call")
    case (Inl error)
    with Own have "sendOrderNotification_try rt send service order' = (Inl error, [?call])"
      by (simp add: sendOrderNotification_try_def)
    with Inl show ?thesis by blast
  next
    case (Inr response)
    with Own have "sendOrderNotification_try rt send service order' = (Inr True, [?call])"
      by (simp add: sendOrderNotification_try_def)
    with Inr show ?thesis by blast
  qed
next
  case (Inherited rendering)
  then show ?thesis by (simp add: sendOrderNotification_try_def)
next
  case Missing
  then show ?thesis by (simp add: sendOrderNotification_try_def)
qed

lemma try_no_template:
  assumes "map_of ORDER_STATUS_TEMPLATES (status order') = None"
  shows "sendOrderNotification_try rt send service order' = (Inr False, [])
       \<or> sendOrderNotification_try rt send service order' = (Inl TypeError, [])"
proof (cases "get_member ORDER_STATUS_TEMPLATES (status order')")
  case (Own template)
  with assms show ?thesis by (simp add: get_member_def split: option.splits)
next
  case (Inherited rendering)
  then show ?thesis by (simp add: sendOrderNotification_try_def)
next
  case Missing
  then show ?thesis by (simp add: sendOrderNotification_try_def)
qed

text \<open>
  Claim C7. \<open>sendOrderNotification\<close> never throws and returns a boolean. It returns false
  without calling the email provider when the service is not initialized and when no
  template is keyed by \<open>order.status\<close>; an error of the provider during the send is caught
  and yields false. It returns true only after one call that the provider answered.
\<close>

theorem sendOrderNotification_never_throws:
  "(\<exists>sent calls. sendOrderNotification rt send service order' = (Inr sent, calls)
       \<and> (sent \<longrightarrow> (\<exists>call response. calls = [call] \<and> send call = Inr response))
       \<and> ((\<exists>call error. call \<in> set calls \<and> send call = Inl error) \<longrightarrow> \<not> sent))
   \<and> (\<not> isInitialized service \<longrightarrow>
        sendOrderNotification rt send service order' = (Inr False, []))
   \<and> (map_of ORDER_STATUS_TEMPLATES (status order') = None \<longrightarrow>
        sendOrderNotification rt send service order' = (Inr False, []))"
proof -
  have 2: "\<not> isInitialized service \<longrightarrow>
        sendOrderNotification rt send service order' = (Inr False, [])"
    by (simp add: sendOrderNotification_def)
  have 3: "map_of ORDER_STATUS_TEMPLATES (status order') = None \<longrightarrow>
        sendOrderNotification rt send service order' = (Inr False, [])"
  proof
    assume "map_of ORDER_STATUS_TEMPLATES (status order') = None"
    from try_no_template[OF this, of rt send service]
    show "sendOrderNotification rt send service order' = (Inr False, [])"
      by (auto simp: sendOrderNotification_def)
  qed
  have 1: "\<exists>sent calls. sendOrderNotification rt send service order' = (Inr sent, calls)
       \<and> (sent \<longrightarrow> (\<exists>call response. calls = [call] \<and> send call = Inr response))
       \<and> ((\<exists>call error. call \<in> set calls \<and> send call = Inl error) \<longrightarrow> \<not> sent)"
  proof (cases "isInitialized service")
    case False
    with 2 have "sendOrderNotification rt send service order' = (Inr False, [])" by simp
    then show ?thesis by auto
  next
    case True
    from try_cases[of rt send service order']
    consider
        (none) "sendOrderNotification_try rt send service order' = (Inr False, [])"
      | (thrown) "sendOrderNotification_try rt send service order' = (Inl TypeError, [])"
      | (failed) call error where
          "sendOrderNotification_try rt send service order' = (Inl error, [call])"
          "send call = Inl error"
      | (sent) call response where
          "sendOrderNotification_try rt send service order' = (Inr True, [call])"
          "send call = Inr response"
      by blast
    then show ?thesis
    proof cases
      case none
      with True have "sendOrderNotification rt send service order' = (Inr False, [])"
        by (simp add: sendOrderNotification_def)
      then show ?thesis by auto
    next
      case thrown
      with True have "sendOrderNotification rt send service order' = (Inr False, [])"
        by (simp add: sendOrderNotification_def)
      then show ?thesis by auto
    next
      case failed
      with True have "sendOrderNotification rt send service order' = (Inr False, [call])"
        by (simp add: sendOrderNotification_def)
      then show ?thesis by auto
    next
      case sent
      with True have s: "sendOrderNotification rt send service order' = (Inr True, [call])"
        by (simp add: sendOrderNotification_def)
      have ok: "\<exists>c response. [call] = [c] \<and> send c = Inr response"
        using sent(2) by simp
      have "\<not> (\<exists>c error. c \<in> set [call] \<and> send c = Inl error)"
        using sent(2) by simp
      with s ok show ?thesis by blast
    qed
  qed
  from 1 2 3 show ?thesis by blast
qed

lemma pending_template:
  "get_member ORDER_STATUS_TEMPLATES (str ''pending'') = Own template_pending"
  by (simp add: get_member_def ORDER_STATUS_TEMPLATES_def)

lemma shipped_template: "map_of ORDER_STATUS_TEMPLATES (str ''shipped'') = None"
  by (simp add: ORDER_STATUS_TEMPLATES_def str_def)

theorem sendOrderNotification_never_throws_witness:
  "\<not> isInitialized (example_service\<lparr>isInitialized := False\<rparr>)
   \<and> sendOrderNotification example_runtime accepting_provider
        (example_service\<lparr>isInitialized := False\<rparr>) testOrder = (Inr False, [])
   \<and> map_of ORDER_STATUS_TEMPLATES (status (testOrder\<lparr>status := str ''shipped''\<rparr>)) = None
   \<and> sendOrderNotification example_runtime accepting_provider example_service
        (testOrder\<lparr>status := str ''shipped''\<rparr>) = (Inr False, [])
   \<and> (\<exists>call. sendOrderNotification example_runtime failing_provider example_service testOrder
         = (Inr False, [call]))
   \<and> (\<exists>call. sendOrderNotification example_runtime accepting_provider example_service testOrder
         = (Inr True, [call]))"
proof -
  let ?off = "example_service\<lparr>isInitialized := False\<rparr>"
  let ?shipped = "testOrder\<lparr>status := str ''shipped''\<rparr>"
  have a: "\<not> isInitialized ?off" by simp
  have b: "map_of ORDER_STATUS_TEMPLATES (status ?shipped) = None"
    by (simp add: shipped_template)
  have init: "isInitialized example_service" by (simp add: example_service_def)
  have st: "status testOrder = str ''pending''" by (simp add: testOrder_def)
  have c: "\<exists>call. sendOrderNotification example_runtime failing_provider example_service testOrder
         = (Inr False, [call])"
    by (simp add: sendOrderNotification_def sendOrderNotification_try_def init st pending_template
        failing_provider_def)
  have d: "\<exists>call. sendOrderNotification example_runtime accepting_provider example_service testOrder
         = (Inr True, [call])"
    by (simp add: sendOrderNotification_def sendOrderNotification_try_def init st pending_template
        accepting_provider_def)
  from sendOrderNotification_never_throws[of example_runtime accepting_provider ?off testOrder] a
  have 1: "sendOrderNotification example_runtime accepting_provider ?off testOrder = (Inr False, [])"
    by blast
  from sendOrderNotification_never_throws[of example_runtime accepting_provider example_service ?shipped] b
  have 2: "sendOrderNotification example_runtime accepting_provider example_service ?shipped
      = (Inr False, [])"
    by blast
  from sendOrderNotification_never_throws[of example_runtime failing_provider example_service
         testOrder]
  obtain sent calls where
    r: "sendOrderNotification example_runtime failing_provider example_service testOrder
          = (Inr sent, calls)"
    and imp: "(\<exists>call error. call \<in> set calls \<and> failing_provider call = Inl error)
          \<longrightarrow> \<not> sent"
    by blast
  from c r obtain call where "calls = [call]" by auto
  then have "\<exists>call error. call \<in> set calls \<and> failing_provider call = Inl error"
    by (simp add: failing_provider_def)
  with imp have "\<not> sent" ..
  with r c have 3: "\<exists>call. sendOrderNotification example_runtime failing_provider example_service
      testOrder = (Inr False, [call])"
    by simp
  from a 1 b 2 3 d show ?thesis by blast
qed


section \<open>Properties of the enhanced notifications page\<close>

subsection \<open>Sorting by priority\<close>

lemma set_sort_insert: "set (sort_insert cmp x ys) = insert x (set ys)"
  by (induction ys) auto

lemma mset_sort_insert: "mset (sort_insert cmp x ys) = add_mset x (mset ys)"
  by (induction ys) auto

lemma mset_array_sort: "mset (array_sort cmp xs) = mset xs"
  by (induction xs) (simp_all add: array_sort_def mset_sort_insert)

lemma set_array_sort: "set (array_sort cmp xs) = set xs"
  by (induction xs) (simp_all add: array_sort_def set_sort_insert)

lemma sorted_sort_insert:
  assumes le: "\<And>a b. a \<in> S \<Longrightarrow> b \<in> S \<Longrightarrow> ((case cmp a b of None \<Rightarrow> 0 | Some v \<Rightarrow> v) \<le> 0) = R a b"
    and total: "\<And>a b. a \<in> S \<Longrightarrow> b \<in> S \<Longrightarrow> R a b \<or> R b a"
    and trans: "\<And>a b c. a \<in> S \<Longrightarrow> b \<in> S \<Longrightarrow> c \<in> S \<Longrightarrow> R a b \<Longrightarrow> R b c \<Longrightarrow> R a c"
    and "x \<in> S" "set ys \<subseteq> S" "sorted_wrt R ys"
  shows "sorted_wrt R (sort_insert cmp x ys)"
  using assms(4-)
proof (induction ys)
  case Nil
  then show ?case by simp
next
  case (Cons y ys)
  show ?case
  proof (cases "R x y")
    case True
    have "\<forall>z \<in> set ys. R x z"
    proof
      fix z assume z: "z \<in> set ys"
      with Cons.prems have "R y z" by simp
      with True trans[of x y z] Cons.prems z show "R x z" by auto
    qed
    with True Cons.prems le[of x y] show ?thesis by auto
  next
    case False
    with total[of x y] Cons.prems have "R y x" by auto
    with False Cons le[of x y] show ?thesis by (auto simp: set_sort_insert)
  qed
qed

lemma sorted_array_sort:
  assumes le: "\<And>a b. a \<in> S \<Longrightarrow> b \<in> S \<Longrightarrow> ((case cmp a b of None \<Rightarrow> 0 | Some v \<Rightarrow> v) \<le> 0) = R a b"
    and total: "\<And>a b. a \<in> S \<Longrightarrow> b \<in> S \<Longrightarrow> R a b \<or> R b a"
    and trans: "\<And>a b c. a \<in> S \<Longrightarrow> b \<in> S \<Longrightarrow> c \<in> S \<Longrightarrow> R a b \<Longrightarrow> R b c \<Longrightarrow> R a c"
    and "set xs \<subseteq> S"
  shows "sorted_wrt R (array_sort cmp xs)"
  using assms(4)
proof (induction xs)
  case Nil
  then show ?case by (simp add: array_sort_def)
next
  case (Cons x xs)
  then have 1: "sorted_wrt R (array_sort cmp xs)" by simp
  have 2: "set (array_sort cmp xs) \<subseteq> S" using Cons.prems by (simp add: set_array_sort)
  have 3: "x \<in> S" using Cons.prems by simp
  have "sorted_wrt R (sort_insert cmp x (array_sort cmp xs))"
    by (rule sorted_sort_insert[where S = S and R = R and cmp = cmp, OF le total trans 3 2 1])
  then show ?case by (simp add: array_sort_def)
qed

lemma priorityOrder_inj: "priorityOrder p = priorityOrder q \<longleftrightarrow> p = q"
  by (cases p; cases q) (simp_all add: priorityOrder_def)

lemma priority_then_newest_dated:
  assumes "getTime rt (enhanced_notification.createdAt a) = Some ta"
    "getTime rt (enhanced_notification.createdAt b) = Some tb"
  shows "priority_then_newest rt a b
     = (priorityOrder (priority a) > priorityOrder (priority b)
        \<or> (priorityOrder (priority a) = priorityOrder (priority b) \<and> tb \<le> ta))"
  by (simp add: priority_then_newest_def assms priorityOrder_inj)

lemma compare_priority:
  assumes "dated rt a" "dated rt b"
  shows "((case compareNotifications rt (str ''priority'') a b of None \<Rightarrow> 0 | Some v \<Rightarrow> v) \<le> 0)
       = priority_then_newest rt a b"
proof -
  have neq: "str ''priority'' \<noteq> str ''oldest''" by (simp add: str_def)
  from assms obtain ta tb where
    t: "getTime rt (enhanced_notification.createdAt a) = Some ta"
       "getTime rt (enhanced_notification.createdAt b) = Some tb"
    by (auto simp: dated_def)
  have c: "compareNotifications rt (str ''priority'') a b
      = (if priorityOrder (priority a) = priorityOrder (priority b) then Some (tb - ta)
         else Some (priorityOrder (priority b) - priorityOrder (priority a)))"
    using neq by (simp add: compareNotifications_def time_diff_def t Let_def)
  show ?thesis
    unfolding c priority_then_newest_dated[OF t] by auto
qed

lemma priority_total:
  assumes "dated rt a" "dated rt b"
  shows "priority_then_newest rt a b \<or> priority_then_newest rt b a"
proof -
  from assms obtain ta tb where
    t: "getTime rt (enhanced_notification.createdAt a) = Some ta"
       "getTime rt (enhanced_notification.createdAt b) = Some tb"
    by (auto simp: dated_def)
  show ?thesis
    unfolding priority_then_newest_dated[OF t] priority_then_newest_dated[OF t(2) t(1)] by linarith
qed

lemma priority_trans:
  assumes "dated rt a" "dated rt b" "dated rt c"
    "priority_then_newest rt a b" "priority_then_newest rt b c"
  shows "priority_then_newest rt a c"
proof -
  from assms(1-3) obtain ta tb tc where
    t: "getTime rt (enhanced_notification.createdAt a) = Some ta"
       "getTime rt (enhanced_notification.createdAt b) = Some tb"
       "getTime rt (enhanced_notification.createdAt c) = Some tc"
    by (auto simp: dated_def)
  from assms(4,5) show ?thesis
    unfolding priority_then_newest_dated[OF t(1) t(2)] priority_then_newest_dated[OF t(2) t(3)]
      priority_then_newest_dated[OF t(1) t(3)] by linarith
qed

text \<open>
  Claim C5. Sorting with the key \<open>priority\<close> gives a permutation of the notifications it
  sorts (those matching the search; all of them when the search term is empty), in which no
  notification stands before one of higher priority, so high precedes medium precedes low,
  and notifications of equal priority stand in descending \<open>createdAt\<close> order. The
  \<open>createdAt\<close> of every notification is a date, as the store writes it.
\<close>

theorem sort_by_priority:
  assumes "list_all (dated rt) notifications"
  shows "mset (filteredAndSortedNotifications rt notifications searchTerm (str ''priority''))
           = mset (filter (matchesSearch rt searchTerm) notifications)
       \<and> mset (filteredAndSortedNotifications rt notifications [] (str ''priority''))
           = mset notifications
       \<and> sorted_wrt (priority_then_newest rt)
           (filteredAndSortedNotifications rt notifications searchTerm (str ''priority''))"
proof -
  let ?S = "{n. dated rt n}"
  have sub: "set (filter (matchesSearch rt searchTerm) notifications) \<subseteq> ?S"
    using assms by (auto simp: list_all_iff)
  have "sorted_wrt (priority_then_newest rt)
      (array_sort (compareNotifications rt (str ''priority''))
         (filter (matchesSearch rt searchTerm) notifications))"
  proof (rule sorted_array_sort[where S = ?S])
    show "\<And>a b. a \<in> ?S \<Longrightarrow> b \<in> ?S \<Longrightarrow>
      ((case compareNotifications rt (str ''priority'') a b of None \<Rightarrow> 0 | Some v \<Rightarrow> v) \<le> 0)
        = priority_then_newest rt a b"
      by (simp add: compare_priority)
    show "\<And>a b. a \<in> ?S \<Longrightarrow> b \<in> ?S \<Longrightarrow> priority_then_newest rt a b \<or> priority_then_newest rt b a"
      by (simp add: priority_total)
    show "\<And>a b c. a \<in> ?S \<Longrightarrow> b \<in> ?S \<Longrightarrow> c \<in> ?S \<Longrightarrow> priority_then_newest rt a b
        \<Longrightarrow> priority_then_newest rt b c \<Longrightarrow> priority_then_newest rt a c"
      by (rule priority_trans) simp_all
    show "set (filter (matchesSearch rt searchTerm) notifications) \<subseteq> ?S" by (rule sub)
  qed
  moreover have "filter (matchesSearch rt []) notifications = notifications"
    by (simp add: matchesSearch_def)
  ultimately show ?thesis
    by (simp add: filteredAndSortedNotifications_def mset_array_sort)
qed

lemma example_times:
  "getTime example_runtime (str ''100'') = Some 100"
  "getTime example_runtime (str ''200'') = Some 200"
  "getTime example_runtime (str ''300'') = Some 300"
  by (simp_all add: example_runtime_def str_def)

theorem sort_by_priority_witness:
  "list_all (dated example_runtime) example_notifications
   \<and> map enhanced_id (filteredAndSortedNotifications example_runtime example_notifications []
        (str ''priority'')) = [str ''d'', str ''b'', str ''c'', str ''a'']
   \<and> sorted_wrt (priority_then_newest example_runtime)
        (filteredAndSortedNotifications example_runtime example_notifications [] (str ''priority''))"
proof -
  have h: "list_all (dated example_runtime) example_notifications"
    by (simp add: example_notifications_def dated_def example_times)
  have neq: "str ''priority'' \<noteq> str ''oldest''" by (simp add: str_def)
  have "map enhanced_id (filteredAndSortedNotifications example_runtime example_notifications []
        (str ''priority'')) = [str ''d'', str ''b'', str ''c'', str ''a'']"
    using neq
    by (simp add: filteredAndSortedNotifications_def matchesSearch_def array_sort_def
        example_notifications_def compareNotifications_def time_diff_def example_times
        priorityOrder_def Let_def)
  with h sort_by_priority[OF h, of "[]"] show ?thesis by blast
qed


subsection \<open>Click-through rate\<close>

text \<open>
  Claim C8. The click-through rate is \<open>clicked_count / total * 100\<close>, lies in the interval
  from 0 to 100, and is 0 when there is no notification: it is always a number, so no
  division by zero occurs.
\<close>

theorem clickThroughRate_bounds:
  "\<exists>r. clickThroughRate notifications = Some r
      \<and> r = (if length notifications = 0 then 0
             else real (length (filter clicked notifications)) / real (length notifications) * 100)
      \<and> 0 \<le> r \<and> r \<le> 100
      \<and> clickThroughRate [] = Some 0"
proof (cases "notifications = []")
  case True
  then show ?thesis by (simp add: clickThroughRate_def)
next
  case False
  let ?c = "real (length (filter clicked notifications))"
  let ?t = "real (length notifications)"
  from False have pos: "0 < ?t" by simp
  have "?c \<le> ?t" by simp
  with pos have "?c / ?t * 100 \<le> 100" by (simp add: field_simps)
  then have "?c / ?t * 100 \<le> 100" .
  moreover have "0 \<le> ?c / ?t * 100" by simp
  moreover have "clickThroughRate notifications = Some (?c / ?t * 100)"
    using False by (simp add: clickThroughRate_def divide_number_def Let_def)
  moreover have "clickThroughRate [] = Some 0" by (simp add: clickThroughRate_def)
  ultimately show ?thesis using False by simp
qed



end
